theory Spec2Isabelle
  imports Main "HOL-Library.Sublist"
begin

section \<open>Go library functions that root.go calls\<close>

text \<open>
  Go strings are byte sequences; \<open>string\<close> (a list of 8-bit characters) models them.
  \<open>strings.Contains(s, substr)\<close> reports whether \<open>substr\<close> occurs in \<open>s\<close> as a
  contiguous run of bytes; the empty string occurs in every string.
\<close>

fun strings_Contains :: "string \<Rightarrow> string \<Rightarrow> bool" where
  "strings_Contains [] substr = (substr = [])"
| "strings_Contains (c # cs) substr = (if prefix substr (c # cs) then True else strings_Contains cs substr)"

text \<open>
  \<open>fmt.Sprintf\<close> restricted to the verb \<open>%s\<close> with string operands, the only verb the
  format strings of root.go use. A verb with no operand left prints \<open>%!s(MISSING)\<close> as Go
  does; every call in root.go passes exactly as many operands as its format has verbs.
  \<open>fmt.Sprint\<close> of one string is that string.
\<close>

fun Sprintf :: "string \<Rightarrow> string list \<Rightarrow> string" where
  "Sprintf [] as = []"
| "Sprintf [c] as = [c]"
| "Sprintf (c # d # rest) as =
     (if c = CHR ''%'' \<and> d = CHR ''s''
      then (case as of
              [] \<Rightarrow> ''%!s(MISSING)'' @ Sprintf rest []
            | a # as' \<Rightarrow> a @ Sprintf rest as')
      else c # Sprintf (d # rest) as)"

definition Sprint :: "string \<Rightarrow> string" where
  "Sprint s = s"

text \<open>
  \<open>path.Join\<close> drops empty elements, joins the others with a slash and cleans the
  result with \<open>path.Clean\<close>; with no non-empty element it returns the empty string.
  \<open>path.Clean\<close> is lexical: it splits the path at slashes, drops empty and \<open>.\<close>
  elements, lets \<open>..\<close> cancel the element before it (at the root it is dropped, at the
  start of a relative path it is kept), and returns \<open>.\<close> for an empty result.
\<close>

fun split_slash :: "string \<Rightarrow> string list" where
  "split_slash [] = [[]]"
| "split_slash (c # cs) =
     (if c = CHR ''/'' then [] # split_slash cs
      else (case split_slash cs of
              [] \<Rightarrow> [[c]]
            | x # xs \<Rightarrow> (c # x) # xs))"

fun join_slash :: "string list \<Rightarrow> string" where
  "join_slash [] = []"
| "join_slash [x] = x"
| "join_slash (x # y # ys) = x @ CHR ''/'' # join_slash (y # ys)"

text \<open>The stack of kept elements is held innermost first.\<close>

definition clean_elem :: "bool \<Rightarrow> string list \<Rightarrow> string \<Rightarrow> string list" where
  "clean_elem rooted st e =
     (if e = [] then st
      else if e = ''.'' then st
      else if e = ''..'' then
        (case st of
           [] \<Rightarrow> (if rooted then [] else [''..''])
         | t # ts \<Rightarrow> (if t = ''..'' then ''..'' # t # ts else ts))
      else e # st)"

definition path_Clean :: "string \<Rightarrow> string" where
  "path_Clean p =
     (if p = [] then ''.''
      else
        (let rooted = (hd p = CHR ''/'');
             st = foldl (clean_elem rooted) [] (split_slash p);
             body = join_slash (rev st)
         in if rooted then CHR ''/'' # body
            else if body = [] then ''.''
            else body))"

definition path_Join :: "string list \<Rightarrow> string" where
  "path_Join elem =
     (let es = filter (\<lambda>e. e \<noteq> []) elem
      in if es = [] then [] else path_Clean (join_slash es))"

section \<open>Package-level constants and variables of root.go\<close>

definition latestVersionMsg :: string where
  "latestVersionMsg = ''Latest available version: %s''"

definition versionMsg :: string where
  "versionMsg = ''%s'' @ [CHR 0x0A] @ ''  Build date: %s'' @ [CHR 0x0A]
     @ ''  Built with: %s'' @ [CHR 0x0A]"

definition versionMsgWithLatestVersion :: string where
  "versionMsgWithLatestVersion = ''%s'' @ [CHR 0x0A] @ ''  %s'' @ [CHR 0x0A]
     @ ''  Build date: %s'' @ [CHR 0x0A] @ ''  Built with: %s'' @ [CHR 0x0A]"

definition cmdUse :: string where
  "cmdUse = ''rit''"

definition MsgInit :: string where
  "MsgInit = ''To start using rit, you need to initialize rit first.'' @ [CHR 0x0A]
     @ ''Command: rit init''"

definition whitelist :: "string list" where
  "whitelist =
     [ Sprint cmdUse,
       Sprintf ''%s help'' [cmdUse],
       Sprintf ''%s completion zsh'' [cmdUse],
       Sprintf ''%s completion bash'' [cmdUse],
       Sprintf ''%s completion fish'' [cmdUse],
       Sprintf ''%s completion powershell'' [cmdUse],
       Sprintf ''%s init'' [cmdUse],
       Sprintf ''%s upgrade'' [cmdUse] ]"

definition upgradeWhitelist :: "string list" where
  "upgradeWhitelist = [ Sprint cmdUse ]"

text \<open>
  \<open>Version\<close>, \<open>BuildDate\<close> and \<open>StableVersionUrl\<close> are variables set when the binary is
  linked, so they are parameters here, together with what the process gets from outside
  the package: \<open>runtime.Version()\<close>, the colouring of \<open>prompt.Yellow\<close>, and the answer of
  the remote stable-version endpoint to a request with a given URL and timeout in seconds.
  \<open>upgradeNotice\<close> and \<open>noNotice\<close> are the two messages of \<open>version.VerifyNewVersion\<close>.
\<close>

record 'e env =
  Version :: string
  BuildDate :: string
  StableVersionUrl :: string
  runtime_Version :: string
  prompt_Yellow :: "string \<Rightarrow> string"
  remote :: "string \<Rightarrow> nat \<Rightarrow> 'e + string"
  upgradeNotice :: "string \<Rightarrow> string"
  noNotice :: string

section \<open>Data model\<close>

text \<open>
  The hooks act on the outside world through their collaborators only. The world is the
  filesystem, of a type the directory collaborator chooses, and the trace of collaborator
  calls and of lines written to the terminal, oldest first.
\<close>

datatype event =
    DirCreate string
  | DirExists string
  | TutorialFind
  | HttpGet string nat
  | Println string
  | Warning string
  | Info string
  | RunBody

record 'fs world =
  fs :: 'fs
  trace :: "event list"

definition emit :: "event \<Rightarrow> 'fs world \<Rightarrow> 'fs world" where
  "emit ev w = w\<lparr>trace := trace w @ [ev]\<rparr>"

text \<open>
  A hook either returns to the framework, with Go's \<open>error\<close> (\<open>None\<close> is \<open>nil\<close>), or ends
  the process with \<open>os.Exit\<close>.
\<close>

datatype 'e outcome = Return "'e option" | Exit int

text \<open>
  \<open>stream.DirCreateChecker\<close> and \<open>rtutorial.Finder\<close> are interfaces; root.go holds whatever
  implementation its constructor is given. \<open>Create(dir) error\<close> may change the
  filesystem; \<open>Exists(dir) bool\<close> is a query of it; \<open>Find() (TutorialHolder, error)\<close> reads
  the stored tutorial state.
\<close>

record ('fs, 'e) DirCreateChecker =
  Create :: "string \<Rightarrow> 'fs \<Rightarrow> 'e option \<times> 'fs"
  Exists :: "string \<Rightarrow> 'fs \<Rightarrow> bool"

record TutorialHolder =
  Current :: string

record ('fs, 'e) Finder =
  Find :: "'fs \<Rightarrow> 'e + TutorialHolder"

record ('fs, 'e) rootCmd =
  ritchieHome :: string
  dir :: "('fs, 'e) DirCreateChecker"
  rt :: "('fs, 'e) Finder"

text \<open>Of a \<open>cobra.Command\<close> the hooks read only what \<open>CommandPath()\<close> returns.\<close>

record Command =
  CommandPath :: string

text \<open>A collaborator call is recorded in the trace when it is made.\<close>

definition dir_Create :: "('fs, 'e) rootCmd \<Rightarrow> string \<Rightarrow> 'fs world \<Rightarrow> 'e option \<times> 'fs world" where
  "dir_Create ro p w =
     (case Create (dir ro) p (fs w) of
        (r, fs') \<Rightarrow> (r, \<lparr>fs = fs', trace = trace w @ [DirCreate p]\<rparr>))"

definition dir_Exists :: "('fs, 'e) rootCmd \<Rightarrow> string \<Rightarrow> 'fs world \<Rightarrow> bool \<times> 'fs world" where
  "dir_Exists ro p w = (Exists (dir ro) p (fs w), emit (DirExists p) w)"

definition rt_Find :: "('fs, 'e) rootCmd \<Rightarrow> 'fs world \<Rightarrow> ('e + TutorialHolder) \<times> 'fs world" where
  "rt_Find ro w = (Find (rt ro) (fs w), emit TutorialFind w)"

section \<open>Code of the repository outside root.go\<close>

text \<open>
  Modelled from the spec: \<open>sliceutil.Contains\<close> (package \<open>pkg/slice/sliceutil\<close>), which
  root.go calls and whose body is not among the sources. The spec describes it as a pure
  containment check, true iff the command path equals some entry of the list, with no
  pattern and no prefix matching.
\<close>

fun sliceutil_Contains :: "string list \<Rightarrow> string \<Rightarrow> bool" where
  "sliceutil_Contains [] s = False"
| "sliceutil_Contains (x # xs) s = (if x = s then True else sliceutil_Contains xs s)"

text \<open>
  Modelled from the spec: the constant \<open>tutorialStatusOn\<close>, declared in another file of
  the package. The spec gives the value that triggers the banner as \<open>on\<close>.
\<close>

definition tutorialStatusOn :: string where
  "tutorialStatusOn = ''on''"

text \<open>
  \<open>prompt.Warning\<close> and \<open>prompt.Info\<close> write a coloured line to the terminal, \<open>fmt.Println\<close>
  a plain one: each is an event of the trace.
\<close>

definition prompt_Warning :: "string \<Rightarrow> 'fs world \<Rightarrow> 'fs world" where
  "prompt_Warning s w = emit (Warning s) w"

definition prompt_Info :: "string \<Rightarrow> 'fs world \<Rightarrow> 'fs world" where
  "prompt_Info s w = emit (Info s) w"

definition fmt_Println :: "string \<Rightarrow> 'fs world \<Rightarrow> 'fs world" where
  "fmt_Println s w = emit (Println s) w"

text \<open>
  The value of \<open>version.DefaultVersionResolver\<close> that root.go builds: the URL and the
  timeout of its HTTP client, in seconds (its file service is the stateless default).
\<close>

record DefaultVersionResolver =
  resolverUrl :: string
  httpTimeout :: nat

text \<open>
  Modelled from the spec: \<open>StableVersion\<close> of \<open>version.DefaultVersionResolver\<close>, not among
  the sources. The spec: one HTTP GET to the configured URL under the client's timeout;
  the trimmed response body is the stable version; a transport error or a non-success
  status is returned as an error. The request is an event; its answer is \<open>remote\<close>.
\<close>

definition StableVersion ::
  "'e env \<Rightarrow> DefaultVersionResolver \<Rightarrow> 'fs world \<Rightarrow> ('e + string) \<times> 'fs world" where
  "StableVersion env r w =
     (remote env (resolverUrl r) (httpTimeout r), emit (HttpGet (resolverUrl r) (httpTimeout r)) w)"

text \<open>
  Modelled from the spec: \<open>version.VerifyNewVersion\<close>, not among the sources. The spec:
  when resolution succeeds and the stable version differs (plain string inequality) from
  the running version, it produces the user-facing notice; when it matches or resolution
  fails, it produces the message without notice; no error is propagated.
\<close>

definition VerifyNewVersion ::
  "'e env \<Rightarrow> DefaultVersionResolver \<Rightarrow> string \<Rightarrow> 'fs world \<Rightarrow> string \<times> 'fs world" where
  "VerifyNewVersion env r currentVersion w =
     (case StableVersion env r w of
        (Inl err, w1) \<Rightarrow> (noNotice env, w1)
      | (Inr stableVersion, w1) \<Rightarrow>
          (if stableVersion = currentVersion then (noNotice env, w1)
           else (upgradeNotice env stableVersion, w1)))"

section \<open>root.go\<close>

definition isWhitelist :: "string list \<Rightarrow> Command \<Rightarrow> bool" where
  "isWhitelist wl cmd = sliceutil_Contains wl (CommandPath cmd)"

definition isCompleteCmd :: "Command \<Rightarrow> bool" where
  "isCompleteCmd cmd = strings_Contains (CommandPath cmd) ''__complete''"

definition ritchieIsInitialized :: "('fs, 'e) rootCmd \<Rightarrow> 'fs world \<Rightarrow> bool \<times> 'fs world" where
  "ritchieIsInitialized ro w =
     (let commonsRepoPath = path_Join [ritchieHome ro, ''repos'', ''commons'']
      in dir_Exists ro commonsRepoPath w)"

definition PreRunFunc ::
  "('fs, 'e) rootCmd \<Rightarrow> Command \<Rightarrow> 'fs world \<Rightarrow> 'e outcome \<times> 'fs world" where
  "PreRunFunc ro cmd w =
     (case dir_Create ro (ritchieHome ro) w of
        (Some err, w1) \<Rightarrow> (Return (Some err), w1)
      | (None, w1) \<Rightarrow>
          (if isWhitelist whitelist cmd then (Return None, w1)
           else if isCompleteCmd cmd then (Return None, w1)
           else (case ritchieIsInitialized ro w1 of
                   (False, w2) \<Rightarrow> (Exit 0, fmt_Println MsgInit w2)
                 | (True, w2) \<Rightarrow> (Return None, w2))))"

definition verifyNewVersion :: "'e env \<Rightarrow> Command \<Rightarrow> 'fs world \<Rightarrow> 'fs world" where
  "verifyNewVersion env cmd w =
     (if isWhitelist upgradeWhitelist cmd then
        (let resolver = \<lparr>resolverUrl = StableVersionUrl env, httpTimeout = 1\<rparr>
         in case VerifyNewVersion env resolver (Version env) w of
              (msg, w1) \<Rightarrow> prompt_Warning msg w1)
      else w)"

definition tutorialRit :: "string \<Rightarrow> 'fs world \<Rightarrow> 'fs world" where
  "tutorialRit tutorialStatus w =
     (let tagTutorial = [CHR 0x0A] @ ''[TUTORIAL]'';
          MessageTitle = ''To initialize the ritchie:'';
          MessageBody = '' '' @ [CHR 0xE2, CHR 0x88, CHR 0x99] @ '' Run '' @ [CHR 0x22] @ ''rit init'' @ [CHR 0x22, CHR 0x0A]
      in if tutorialStatus = tutorialStatusOn
         then fmt_Println MessageBody (prompt_Info MessageTitle (prompt_Info tagTutorial w))
         else w)"

definition PostRunFunc ::
  "'e env \<Rightarrow> ('fs, 'e) rootCmd \<Rightarrow> Command \<Rightarrow> 'fs world \<Rightarrow> 'e outcome \<times> 'fs world" where
  "PostRunFunc env ro cmd w =
     (let w1 = verifyNewVersion env cmd w
      in case ritchieIsInitialized ro w1 of
           (True, w2) \<Rightarrow> (Return None, w2)
         | (False, w2) \<Rightarrow>
             (case rt_Find ro w2 of
                (Inl err, w3) \<Rightarrow> (Return (Some err), w3)
              | (Inr tutorialHolder, w3) \<Rightarrow> (Return None, tutorialRit (Current tutorialHolder) w3)))"

definition versionFlag :: "'e env \<Rightarrow> 'fs world \<Rightarrow> string \<times> 'fs world" where
  "versionFlag env w =
     (let resolver = \<lparr>resolverUrl = StableVersionUrl env, httpTimeout = 1\<rparr>
      in case StableVersion env resolver w of
           (Inr latestVersion, w1) \<Rightarrow>
             (if latestVersion = Version env
              then (Sprintf versionMsg [Version env, BuildDate env, runtime_Version env], w1)
              else
                (let formattedLatestVersionMsg =
                       prompt_Yellow env (Sprintf latestVersionMsg [latestVersion])
                 in (Sprintf versionMsgWithLatestVersion
                       [Version env, formattedLatestVersionMsg, BuildDate env, runtime_Version env],
                     w1)))
         | (Inl err, w1) \<Rightarrow>
             (Sprintf versionMsg [Version env, BuildDate env, runtime_Version env], w1))"

section \<open>The command lifecycle\<close>

text \<open>
  The framework runs the persistent pre-hook, the command body and the persistent
  post-hook in this order, and stops at the first error; \<open>os.Exit\<close> ends the process where
  it is called. The body is opaque: it acts on the filesystem and returns or exits.
\<close>

definition execute ::
  "'e env \<Rightarrow> ('fs, 'e) rootCmd \<Rightarrow> ('fs \<Rightarrow> 'e outcome \<times> 'fs) \<Rightarrow> Command \<Rightarrow> 'fs world
     \<Rightarrow> 'e outcome \<times> 'fs world" where
  "execute env ro body cmd w =
     (case PreRunFunc ro cmd w of
        (Exit c, w1) \<Rightarrow> (Exit c, w1)
      | (Return (Some err), w1) \<Rightarrow> (Return (Some err), w1)
      | (Return None, w1) \<Rightarrow>
          (case body (fs w1) of
             (Exit c, fs2) \<Rightarrow> (Exit c, \<lparr>fs = fs2, trace = trace w1 @ [RunBody]\<rparr>)
           | (Return (Some err), fs2) \<Rightarrow> (Return (Some err), \<lparr>fs = fs2, trace = trace w1 @ [RunBody]\<rparr>)
           | (Return None, fs2) \<Rightarrow> PostRunFunc env ro cmd \<lparr>fs = fs2, trace = trace w1 @ [RunBody]\<rparr>))"

section \<open>Notions used in the statements\<close>

text \<open>
  The path whose existence marks the tool as initialized, and the exemption from the
  initialization gate as the pre-hook tests it.
\<close>

definition initMarker :: "('fs, 'e) rootCmd \<Rightarrow> string" where
  "initMarker ro = path_Join [ritchieHome ro, ''repos'', ''commons'']"

definition exempt :: "Command \<Rightarrow> bool" where
  "exempt cmd = (if isWhitelist whitelist cmd then True else isCompleteCmd cmd)"

section \<open>Example instances\<close>

text \<open>
  A directory service over a list of existing paths, where nothing can be created below
  \<open>/readonly\<close>; a tutorial finder that answers \<open>on\<close> and one that fails.
\<close>

definition mem_dir :: "(string list, string) DirCreateChecker" where
  "mem_dir =
     \<lparr>Create = (\<lambda>p fs. if prefix ''/readonly'' p then (Some ''mkdir: permission denied'', fs)
                        else (None, if p \<in> set fs then fs else fs @ [p])),
      Exists = (\<lambda>p fs. p \<in> set fs)\<rparr>"

definition finder_on :: "(string list, string) Finder" where
  "finder_on = \<lparr>Find = (\<lambda>fs. Inr \<lparr>Current = ''on''\<rparr>)\<rparr>"

definition finder_broken :: "(string list, string) Finder" where
  "finder_broken = \<lparr>Find = (\<lambda>fs. Inl ''tutorial file unreadable'')\<rparr>"

definition example_root :: "(string list, string) rootCmd" where
  "example_root = \<lparr>ritchieHome = ''/home/u/.rit'', dir = mem_dir, rt = finder_on\<rparr>"

definition broken_tutorial_root :: "(string list, string) rootCmd" where
  "broken_tutorial_root = \<lparr>ritchieHome = ''/home/u/.rit'', dir = mem_dir, rt = finder_broken\<rparr>"

definition readonly_root :: "(string list, string) rootCmd" where
  "readonly_root = \<lparr>ritchieHome = ''/readonly/.rit'', dir = mem_dir, rt = finder_on\<rparr>"

definition fresh_world :: "string list world" where
  "fresh_world = \<lparr>fs = [], trace = []\<rparr>"

definition noop_body :: "string list \<Rightarrow> string outcome \<times> string list" where
  "noop_body fs0 = (Return None, fs0)"

text \<open>
  Three environments for a build of version 2.0.0: the endpoint publishes 2.1.0, the
  endpoint publishes 2.0.0, the endpoint cannot be reached.
\<close>

definition example_env :: "string env" where
  "example_env =
     \<lparr>Version = ''2.0.0'', BuildDate = ''2020-08-01'',
      StableVersionUrl = ''https://commons-repo.ritchiecli.io/stable.txt'',
      runtime_Version = ''go1.14'',
      prompt_Yellow = (\<lambda>s. ''<yellow>'' @ s @ ''</yellow>''),
      remote = (\<lambda>url t. Inr ''2.1.0''),
      upgradeNotice = (\<lambda>v. ''Please upgrade rit to '' @ v),
      noNotice = []\<rparr>"

definition current_env :: "string env" where
  "current_env = example_env\<lparr>remote := (\<lambda>url t. Inr ''2.0.0'')\<rparr>"

definition offline_env :: "string env" where
  "offline_env = example_env\<lparr>remote := (\<lambda>url t. Inl ''Get: context deadline exceeded'')\<rparr>"

text \<open>
  A path element that \<open>path.Clean\<close> keeps as it is, and the path made of such elements,
  absolute or relative: the paths that are already clean.
\<close>

definition plain_elem :: "string \<Rightarrow> bool" where
  "plain_elem e = (e \<noteq> [] \<and> CHR ''/'' \<notin> set e \<and> e \<noteq> ''.'' \<and> e \<noteq> ''..'')"

definition clean_path :: "bool \<Rightarrow> string list \<Rightarrow> string" where
  "clean_path rooted es = (if rooted then CHR ''/'' # join_slash es else join_slash es)"

definition initialized_world :: "string list world" where
  "initialized_world = \<lparr>fs = [''/home/u/.rit'', ''/home/u/.rit/repos/commons''], trace = []\<rparr>"

text \<open>
  The requests to the stable-version endpoint among the events, and the two texts of
  the version flag written out.
\<close>

fun is_HttpGet :: "event \<Rightarrow> bool" where
  "is_HttpGet (HttpGet url t) = True"
| "is_HttpGet ev = False"

definition plainVersionText :: "'e env \<Rightarrow> string" where
  "plainVersionText env =
     Version env @ [CHR 0x0A] @ ''  Build date: '' @ BuildDate env @ [CHR 0x0A]
       @ ''  Built with: '' @ runtime_Version env @ [CHR 0x0A]"

definition noticeVersionText :: "'e env \<Rightarrow> string \<Rightarrow> string" where
  "noticeVersionText env latest =
     Version env @ [CHR 0x0A] @ ''  '' @ prompt_Yellow env (''Latest available version: '' @ latest)
       @ [CHR 0x0A] @ ''  Build date: '' @ BuildDate env @ [CHR 0x0A]
       @ ''  Built with: '' @ runtime_Version env @ [CHR 0x0A]"

text \<open>
  The events of the tutorial: the query of the finder and the lines of the banner. A
  command body that deletes the commons repository.
\<close>

fun is_tutorial :: "event \<Rightarrow> bool" where
  "is_tutorial TutorialFind = True"
| "is_tutorial (Info s) = True"
| "is_tutorial ev = False"

definition delete_commons_body :: "string list \<Rightarrow> string outcome \<times> string list" where
  "delete_commons_body fs0 = (Return None, removeAll ''/home/u/.rit/repos/commons'' fs0)"

section \<open>Basic facts\<close>

lemma sliceutil_Contains_iff: "sliceutil_Contains xs s \<longleftrightarrow> s \<in> set xs"
  by (induction xs) auto

lemma strings_Contains_iff: "strings_Contains s sub \<longleftrightarrow> (\<exists>p q. s = p @ sub @ q)"
proof (induction s)
  case Nil
  then show ?case by auto
next
  case (Cons c cs)
  show ?case
  proof
    assume "strings_Contains (c # cs) sub"
    then consider "prefix sub (c # cs)" | "strings_Contains cs sub" by (auto split: if_splits)
    then show "\<exists>p q. c # cs = p @ sub @ q"
    proof cases
      case 1
      then obtain q where "c # cs = sub @ q" by (auto simp: prefix_def)
      then have "c # cs = [] @ sub @ q" by simp
      then show ?thesis by blast
    next
      case 2
      with Cons obtain p q where "cs = p @ sub @ q" by blast
      then have "c # cs = (c # p) @ sub @ q" by simp
      then show ?thesis by blast
    qed
  next
    assume "\<exists>p q. c # cs = p @ sub @ q"
    then obtain p q where pq: "c # cs = p @ sub @ q" by blast
    show "strings_Contains (c # cs) sub"
    proof (cases p)
      case Nil
      with pq have "prefix sub (c # cs)" by (simp add: prefix_def)
      then show ?thesis by simp
    next
      case (Cons a p')
      with pq have "cs = p' @ sub @ q" by simp
      with Cons.IH have "strings_Contains cs sub" by blast
      then show ?thesis by simp
    qed
  qed
qed

lemma whitelist_eq:
  "whitelist = [''rit'', ''rit help'', ''rit completion zsh'', ''rit completion bash'',
     ''rit completion fish'', ''rit completion powershell'', ''rit init'', ''rit upgrade'']"
  by (simp add: whitelist_def cmdUse_def Sprint_def)

lemma upgradeWhitelist_eq: "upgradeWhitelist = [''rit'']"
  by (simp add: upgradeWhitelist_def cmdUse_def Sprint_def)

lemma ritchieIsInitialized_eq:
  "ritchieIsInitialized ro w =
     (Exists (dir ro) (initMarker ro) (fs w), w\<lparr>trace := trace w @ [DirExists (initMarker ro)]\<rparr>)"
  by (simp add: ritchieIsInitialized_def dir_Exists_def emit_def initMarker_def Let_def)

lemma PreRunFunc_create_fails:
  assumes "Create (dir ro) (ritchieHome ro) (fs w) = (Some err, fs1)"
  shows "PreRunFunc ro cmd w =
           (Return (Some err), \<lparr>fs = fs1, trace = trace w @ [DirCreate (ritchieHome ro)]\<rparr>)"
  using assms by (simp add: PreRunFunc_def dir_Create_def)

lemma PreRunFunc_exempt:
  assumes "Create (dir ro) (ritchieHome ro) (fs w) = (None, fs1)" and "exempt cmd"
  shows "PreRunFunc ro cmd w =
           (Return None, \<lparr>fs = fs1, trace = trace w @ [DirCreate (ritchieHome ro)]\<rparr>)"
  using assms by (simp add: PreRunFunc_def dir_Create_def exempt_def split: if_splits)

lemma PreRunFunc_gate_open:
  assumes "Create (dir ro) (ritchieHome ro) (fs w) = (None, fs1)" and "\<not> exempt cmd"
    and "Exists (dir ro) (initMarker ro) fs1"
  shows "PreRunFunc ro cmd w =
           (Return None,
            \<lparr>fs = fs1, trace = trace w @ [DirCreate (ritchieHome ro), DirExists (initMarker ro)]\<rparr>)"
  using assms
  by (simp add: PreRunFunc_def dir_Create_def exempt_def ritchieIsInitialized_eq split: if_splits)

lemma PreRunFunc_gate_closed:
  assumes "Create (dir ro) (ritchieHome ro) (fs w) = (None, fs1)" and "\<not> exempt cmd"
    and "\<not> Exists (dir ro) (initMarker ro) fs1"
  shows "PreRunFunc ro cmd w =
           (Exit 0,
            \<lparr>fs = fs1,
             trace = trace w @ [DirCreate (ritchieHome ro), DirExists (initMarker ro), Println MsgInit]\<rparr>)"
  using assms
  by (simp add: PreRunFunc_def dir_Create_def exempt_def ritchieIsInitialized_eq fmt_Println_def
      emit_def split: if_splits)

lemma exempt_iff:
  "exempt cmd \<longleftrightarrow>
     CommandPath cmd \<in> set whitelist \<or> (\<exists>p q. CommandPath cmd = p @ ''__complete'' @ q)"
  by (simp add: exempt_def isWhitelist_def isCompleteCmd_def sliceutil_Contains_iff
      strings_Contains_iff)


lemma initMarker_example: "initMarker example_root = ''/home/u/.rit/repos/commons''"
  by (simp add: initMarker_def example_root_def path_Join_def path_Clean_def clean_elem_def)

lemma exempt_complete: "exempt \<lparr>CommandPath = ''rit __complete init''\<rparr>"
  by (simp add: exempt_def isCompleteCmd_def isWhitelist_def whitelist_eq)

section \<open>The pre-hook\<close>

text \<open>
  C1. For a command whose path is in the init-whitelist or contains the completion marker
  \<open>__complete\<close>, the pre-hook makes one call, the creation of the home directory, and
  returns its result: success when the directory is ensured. It never asks whether the
  tool is initialized and never ends the process.
\<close>

theorem pre_hook_exempt_returns:
  assumes "CommandPath cmd \<in> set whitelist \<or> (\<exists>p q. CommandPath cmd = p @ ''__complete'' @ q)"
    and "Create (dir ro) (ritchieHome ro) (fs w) = (r, fs1)"
  shows "PreRunFunc ro cmd w =
           (Return r, \<lparr>fs = fs1, trace = trace w @ [DirCreate (ritchieHome ro)]\<rparr>)"
proof -
  from assms(1) have ex: "exempt cmd" by (simp add: exempt_iff)
  show ?thesis
  proof (cases r)
    case None
    with assms(2) ex show ?thesis by (simp add: PreRunFunc_exempt)
  next
    case (Some err)
    with assms(2) show ?thesis by (simp add: PreRunFunc_create_fails)
  qed
qed

theorem pre_hook_exempt_returns_witness:
  "(CommandPath \<lparr>CommandPath = ''rit __complete init''\<rparr> \<in> set whitelist
      \<or> (\<exists>p q. CommandPath \<lparr>CommandPath = ''rit __complete init''\<rparr> = p @ ''__complete'' @ q))
   \<and> Create (dir example_root) (ritchieHome example_root) (fs fresh_world) = (None, [''/home/u/.rit''])
   \<and> PreRunFunc example_root \<lparr>CommandPath = ''rit __complete init''\<rparr> fresh_world =
       (Return None, \<lparr>fs = [''/home/u/.rit''], trace = [DirCreate ''/home/u/.rit'']\<rparr>)"
proof -
  have "''rit __complete init'' = ''rit '' @ ''__complete'' @ '' init''" by simp
  then have h1: "CommandPath \<lparr>CommandPath = ''rit __complete init''\<rparr> \<in> set whitelist
      \<or> (\<exists>p q. CommandPath \<lparr>CommandPath = ''rit __complete init''\<rparr> = p @ ''__complete'' @ q)"
    by (metis Command.select_convs(1))
  have h2: "Create (dir example_root) (ritchieHome example_root) (fs fresh_world) = (None, [''/home/u/.rit''])"
    by (simp add: example_root_def mem_dir_def fresh_world_def)
  from pre_hook_exempt_returns [OF h1 h2] h1 h2 show ?thesis
    by (simp add: example_root_def fresh_world_def)
qed

lemma execute_pre_stops:
  assumes "PreRunFunc ro cmd w = (out, w1)" and "out \<noteq> Return None"
  shows "execute env ro body cmd w = (out, w1)"
proof (cases out)
  case (Return r)
  with assms(2) obtain err where "r = Some err" by (cases r) auto
  with Return assms(1) show ?thesis by (simp add: execute_def)
next
  case (Exit c)
  with assms(1) show ?thesis by (simp add: execute_def)
qed

lemma PreRunFunc_first_step:
  "take (Suc (length (trace w))) (trace (snd (PreRunFunc ro cmd w))) =
     trace w @ [DirCreate (ritchieHome ro)]"
proof -
  obtain r fs1 where c: "Create (dir ro) (ritchieHome ro) (fs w) = (r, fs1)"
    by (cases "Create (dir ro) (ritchieHome ro) (fs w)")
  show ?thesis
  proof (cases r)
    case (Some err)
    with c show ?thesis by (simp add: PreRunFunc_create_fails)
  next
    case None
    show ?thesis
    proof (cases "exempt cmd")
      case True
      with c None show ?thesis by (simp add: PreRunFunc_exempt)
    next
      case False
      with c None show ?thesis
        by (cases "Exists (dir ro) (initMarker ro) fs1")
          (simp_all add: PreRunFunc_gate_open PreRunFunc_gate_closed)
    qed
  qed
qed

text \<open>
  C3. Creating the home directory is the first thing the pre-hook does, for every command
  path. When the creation fails, the pre-hook returns that error having done nothing
  else, whatever the command path is, and the invocation ends with that error before the
  command body.
\<close>

theorem create_failure_aborts:
  "take (Suc (length (trace w))) (trace (snd (PreRunFunc ro cmd w))) =
     trace w @ [DirCreate (ritchieHome ro)]
   \<and> (Create (dir ro) (ritchieHome ro) (fs w) = (Some err, fs1) \<longrightarrow>
        PreRunFunc ro cmd w =
          (Return (Some err), \<lparr>fs = fs1, trace = trace w @ [DirCreate (ritchieHome ro)]\<rparr>)
        \<and> execute env ro body cmd w =
          (Return (Some err), \<lparr>fs = fs1, trace = trace w @ [DirCreate (ritchieHome ro)]\<rparr>))"
proof (intro conjI impI)
  show "take (Suc (length (trace w))) (trace (snd (PreRunFunc ro cmd w))) =
     trace w @ [DirCreate (ritchieHome ro)]"
    by (rule PreRunFunc_first_step)
next
  assume c: "Create (dir ro) (ritchieHome ro) (fs w) = (Some err, fs1)"
  then show p: "PreRunFunc ro cmd w =
          (Return (Some err), \<lparr>fs = fs1, trace = trace w @ [DirCreate (ritchieHome ro)]\<rparr>)"
    by (rule PreRunFunc_create_fails)
  then show "execute env ro body cmd w =
          (Return (Some err), \<lparr>fs = fs1, trace = trace w @ [DirCreate (ritchieHome ro)]\<rparr>)"
    by (simp add: execute_pre_stops)
qed

lemma readonly_create:
  "Create (dir readonly_root) (ritchieHome readonly_root) (fs fresh_world) =
     (Some ''mkdir: permission denied'', [])"
  by (simp add: readonly_root_def mem_dir_def fresh_world_def)

theorem create_failure_aborts_witness:
  "Create (dir readonly_root) (ritchieHome readonly_root) (fs fresh_world) =
     (Some ''mkdir: permission denied'', [])
   \<and> PreRunFunc readonly_root \<lparr>CommandPath = ''rit init''\<rparr> fresh_world =
       (Return (Some ''mkdir: permission denied''),
        \<lparr>fs = [], trace = [DirCreate ''/readonly/.rit'']\<rparr>)
   \<and> execute example_env readonly_root noop_body \<lparr>CommandPath = ''rit init''\<rparr> fresh_world =
       (Return (Some ''mkdir: permission denied''),
        \<lparr>fs = [], trace = [DirCreate ''/readonly/.rit'']\<rparr>)"
  using create_failure_aborts [of fresh_world readonly_root "\<lparr>CommandPath = ''rit init''\<rparr>"
      "''mkdir: permission denied''" "[]" example_env noop_body] readonly_create
  by (simp add: readonly_root_def fresh_world_def)

text \<open>
  C2, amended. For a command whose path is neither in the init-whitelist nor a completion
  invocation, when the home directory has been ensured and the initialization marker is
  absent, the pre-hook prints the init message and ends the process with status 0; the
  command body is not run.
\<close>

theorem gate_blocks_uninitialized:
  assumes "CommandPath cmd \<notin> set whitelist"
    and "\<not> (\<exists>p q. CommandPath cmd = p @ ''__complete'' @ q)"
    and "Create (dir ro) (ritchieHome ro) (fs w) = (None, fs1)"
    and "\<not> Exists (dir ro) (path_Join [ritchieHome ro, ''repos'', ''commons'']) fs1"
  shows "PreRunFunc ro cmd w =
           (Exit 0,
            \<lparr>fs = fs1,
             trace = trace w @ [DirCreate (ritchieHome ro),
                                DirExists (path_Join [ritchieHome ro, ''repos'', ''commons'']),
                                Println MsgInit]\<rparr>)
         \<and> execute env ro body cmd w =
           (Exit 0,
            \<lparr>fs = fs1,
             trace = trace w @ [DirCreate (ritchieHome ro),
                                DirExists (path_Join [ritchieHome ro, ''repos'', ''commons'']),
                                Println MsgInit]\<rparr>)"
proof -
  from assms(1,2) have ne: "\<not> exempt cmd" by (simp add: exempt_iff)
  from assms(4) have nx: "\<not> Exists (dir ro) (initMarker ro) fs1" by (simp add: initMarker_def)
  from PreRunFunc_gate_closed [OF assms(3) ne nx]
  have p: "PreRunFunc ro cmd w =
           (Exit 0,
            \<lparr>fs = fs1,
             trace = trace w @ [DirCreate (ritchieHome ro),
                                DirExists (path_Join [ritchieHome ro, ''repos'', ''commons'']),
                                Println MsgInit]\<rparr>)"
    by (simp add: initMarker_def)
  then show ?thesis by (simp add: execute_pre_stops)
qed

lemma not_complete_rit_sub: "\<not> (\<exists>p q. ''rit sub'' = p @ ''__complete'' @ q)"
proof -
  have "\<not> strings_Contains ''rit sub'' ''__complete''" by simp
  then show ?thesis unfolding strings_Contains_iff .
qed

lemma example_create:
  "Create (dir example_root) (ritchieHome example_root) (fs fresh_world) = (None, [''/home/u/.rit''])"
  by (simp add: example_root_def mem_dir_def fresh_world_def)

lemma example_marker: "path_Join [ritchieHome example_root, ''repos'', ''commons''] = ''/home/u/.rit/repos/commons''"
  using initMarker_example by (simp add: initMarker_def)

theorem gate_blocks_uninitialized_witness:
  "CommandPath \<lparr>CommandPath = ''rit sub''\<rparr> \<notin> set whitelist
   \<and> \<not> (\<exists>p q. CommandPath \<lparr>CommandPath = ''rit sub''\<rparr> = p @ ''__complete'' @ q)
   \<and> Create (dir example_root) (ritchieHome example_root) (fs fresh_world) = (None, [''/home/u/.rit''])
   \<and> \<not> Exists (dir example_root) (path_Join [ritchieHome example_root, ''repos'', ''commons'']) [''/home/u/.rit'']
   \<and> execute example_env example_root noop_body \<lparr>CommandPath = ''rit sub''\<rparr> fresh_world =
       (Exit 0,
        \<lparr>fs = [''/home/u/.rit''],
         trace = [DirCreate ''/home/u/.rit'', DirExists ''/home/u/.rit/repos/commons'', Println MsgInit]\<rparr>)"
proof -
  have h1: "CommandPath \<lparr>CommandPath = ''rit sub''\<rparr> \<notin> set whitelist"
    by (simp add: whitelist_eq)
  have h2: "\<not> (\<exists>p q. CommandPath \<lparr>CommandPath = ''rit sub''\<rparr> = p @ ''__complete'' @ q)"
    using not_complete_rit_sub by simp
  note h3 = example_create
  have h4: "\<not> Exists (dir example_root) (path_Join [ritchieHome example_root, ''repos'', ''commons'']) [''/home/u/.rit'']"
    by (simp add: example_marker) (simp add: example_root_def mem_dir_def)
  from gate_blocks_uninitialized [OF h1 h2 h3 h4, of example_env noop_body] h1 h2 h3 h4
  show ?thesis
    by (simp add: example_marker) (simp add: example_root_def fresh_world_def)
qed

text \<open>
  C2 as stated fails where the home directory cannot be created: for a command outside the
  whitelist, with the marker absent, the pre-hook returns the creation error; it prints
  nothing and does not exit with status 0.
\<close>

theorem gate_needs_home_counterexample:
  "isWhitelist whitelist \<lparr>CommandPath = ''rit sub''\<rparr> = False
   \<and> isCompleteCmd \<lparr>CommandPath = ''rit sub''\<rparr> = False
   \<and> Exists (dir readonly_root) (path_Join [ritchieHome readonly_root, ''repos'', ''commons'']) (fs fresh_world) = False
   \<and> PreRunFunc readonly_root \<lparr>CommandPath = ''rit sub''\<rparr> fresh_world =
       (Return (Some ''mkdir: permission denied''),
        \<lparr>fs = [], trace = [DirCreate ''/readonly/.rit'']\<rparr>)"
proof -
  have a: "isWhitelist whitelist \<lparr>CommandPath = ''rit sub''\<rparr> = False"
    by (simp add: isWhitelist_def whitelist_eq)
  have b: "isCompleteCmd \<lparr>CommandPath = ''rit sub''\<rparr> = False"
    by (simp add: isCompleteCmd_def)
  have c: "Exists (dir readonly_root) (path_Join [ritchieHome readonly_root, ''repos'', ''commons'']) (fs fresh_world) = False"
    by (simp add: readonly_root_def mem_dir_def fresh_world_def)
  have d: "PreRunFunc readonly_root \<lparr>CommandPath = ''rit sub''\<rparr> fresh_world =
       (Return (Some ''mkdir: permission denied''),
        \<lparr>fs = [], trace = [DirCreate ''/readonly/.rit'']\<rparr>)"
    using PreRunFunc_create_fails [OF readonly_create]
    by (simp add: readonly_root_def fresh_world_def)
  from a b c d show ?thesis by blast
qed

text \<open>
  C9, amended. The init-whitelist holds the bare root path \<open>rit\<close>, beside help, the
  four completion commands, init and upgrade. So for the bare root command the pre-hook
  returns after creating the home directory, without the initialization check and
  without ending the process, initialized or not.
\<close>

theorem root_path_is_exempt:
  "''rit'' \<in> set whitelist
   \<and> whitelist = [''rit'', ''rit help'', ''rit completion zsh'', ''rit completion bash'',
        ''rit completion fish'', ''rit completion powershell'', ''rit init'', ''rit upgrade'']
   \<and> (CommandPath cmd = ''rit'' \<longrightarrow> Create (dir ro) (ritchieHome ro) (fs w) = (r, fs1) \<longrightarrow>
        PreRunFunc ro cmd w =
          (Return r, \<lparr>fs = fs1, trace = trace w @ [DirCreate (ritchieHome ro)]\<rparr>))"
proof (intro conjI impI)
  show "''rit'' \<in> set whitelist" by (simp add: whitelist_eq)
  show "whitelist = [''rit'', ''rit help'', ''rit completion zsh'', ''rit completion bash'',
        ''rit completion fish'', ''rit completion powershell'', ''rit init'', ''rit upgrade'']"
    by (rule whitelist_eq)
next
  assume p: "CommandPath cmd = ''rit''" and c: "Create (dir ro) (ritchieHome ro) (fs w) = (r, fs1)"
  from p have ex: "exempt cmd" by (simp add: exempt_def isWhitelist_def whitelist_eq)
  show "PreRunFunc ro cmd w =
          (Return r, \<lparr>fs = fs1, trace = trace w @ [DirCreate (ritchieHome ro)]\<rparr>)"
  proof (cases r)
    case None
    with c ex show ?thesis by (simp add: PreRunFunc_exempt)
  next
    case (Some err)
    with c show ?thesis by (simp add: PreRunFunc_create_fails)
  qed
qed

theorem root_path_is_exempt_witness:
  "CommandPath \<lparr>CommandPath = ''rit''\<rparr> = ''rit''
   \<and> Create (dir example_root) (ritchieHome example_root) (fs fresh_world) = (None, [''/home/u/.rit''])
   \<and> \<not> Exists (dir example_root) (path_Join [ritchieHome example_root, ''repos'', ''commons'']) [''/home/u/.rit'']
   \<and> PreRunFunc example_root \<lparr>CommandPath = ''rit''\<rparr> fresh_world =
       (Return None, \<lparr>fs = [''/home/u/.rit''], trace = [DirCreate ''/home/u/.rit'']\<rparr>)"
proof -
  have h4: "\<not> Exists (dir example_root) (path_Join [ritchieHome example_root, ''repos'', ''commons'']) [''/home/u/.rit'']"
    by (simp add: example_marker) (simp add: example_root_def mem_dir_def)
  from root_path_is_exempt [of "\<lparr>CommandPath = ''rit''\<rparr>" example_root fresh_world None "[''/home/u/.rit'']"]
    example_create h4
  show ?thesis by (simp add: example_root_def fresh_world_def)
qed

section \<open>The initialization check\<close>

lemma split_slash_elem:
  "CHR ''/'' \<notin> set x \<Longrightarrow> split_slash (x @ CHR ''/'' # rest) = x # split_slash rest"
  by (induction x) auto

lemma split_slash_single: "CHR ''/'' \<notin> set x \<Longrightarrow> split_slash x = [x]"
  by (induction x) auto

lemma split_join_slash:
  "es \<noteq> [] \<Longrightarrow> list_all (\<lambda>e. CHR ''/'' \<notin> set e) es \<Longrightarrow> split_slash (join_slash es) = es"
proof (induction es rule: join_slash.induct)
  case 1
  then show ?case by simp
next
  case (2 x)
  then show ?case by (simp add: split_slash_single)
next
  case (3 x y ys)
  then show ?case by (simp add: split_slash_elem)
qed

lemma clean_elem_plain: "plain_elem e \<Longrightarrow> clean_elem rooted st e = e # st"
  by (simp add: clean_elem_def plain_elem_def)

lemma foldl_clean_plain:
  "list_all plain_elem es \<Longrightarrow> foldl (clean_elem rooted) st es = rev es @ st"
  by (induction es arbitrary: st) (simp_all add: clean_elem_plain)

lemma join_slash_append:
  "es \<noteq> [] \<Longrightarrow> gs \<noteq> [] \<Longrightarrow> join_slash (es @ gs) = join_slash es @ CHR ''/'' # join_slash gs"
proof (induction es rule: join_slash.induct)
  case 1
  then show ?case by simp
next
  case (2 x)
  then show ?case by (cases gs) simp_all
next
  case (3 x y ys)
  then show ?case by simp
qed

lemma join_slash_nonempty: "es \<noteq> [] \<Longrightarrow> list_all plain_elem es \<Longrightarrow> join_slash es \<noteq> []"
  by (induction es rule: join_slash.induct) (simp_all add: plain_elem_def)

lemma hd_join_slash:
  "es \<noteq> [] \<Longrightarrow> list_all plain_elem es \<Longrightarrow> hd (join_slash es) \<noteq> CHR ''/''"
proof (induction es rule: join_slash.induct)
  case 1
  then show ?case by simp
next
  case (2 x)
  then show ?case by (cases x) (auto simp add: plain_elem_def)
next
  case (3 x y ys)
  then show ?case by (cases x) (auto simp add: plain_elem_def)
qed

lemma plain_no_slash: "list_all plain_elem es \<Longrightarrow> list_all (\<lambda>e. CHR ''/'' \<notin> set e) es"
  by (induction es) (simp_all add: plain_elem_def)

lemma path_Clean_clean_path:
  assumes "es \<noteq> []" and "list_all plain_elem es"
  shows "path_Clean (clean_path rooted es) = clean_path rooted es"
proof (cases rooted)
  case True
  have "split_slash (CHR ''/'' # join_slash es) = [] # es"
    using assms by (simp add: split_join_slash plain_no_slash)
  moreover have "foldl (clean_elem True) [] ([] # es) = rev es"
    using assms(2) by (simp add: clean_elem_def foldl_clean_plain)
  ultimately show ?thesis using True
    by (simp add: path_Clean_def clean_path_def Let_def)
next
  case False
  have ne: "join_slash es \<noteq> []" using assms by (rule join_slash_nonempty)
  have hd: "hd (join_slash es) \<noteq> CHR ''/''" using assms by (rule hd_join_slash)
  have "split_slash (join_slash es) = es"
    using assms by (simp add: split_join_slash plain_no_slash)
  moreover have "foldl (clean_elem False) [] es = rev es"
    using assms(2) by (simp add: foldl_clean_plain)
  ultimately show ?thesis using False ne hd
    by (simp add: path_Clean_def clean_path_def Let_def)
qed

lemma clean_path_append:
  "es \<noteq> [] \<Longrightarrow> gs \<noteq> [] \<Longrightarrow>
   clean_path rooted (es @ gs) = clean_path rooted es @ CHR ''/'' # join_slash gs"
  by (simp add: clean_path_def join_slash_append)

lemma path_Join_marker:
  assumes "es \<noteq> []" and "list_all plain_elem es"
  shows "path_Join [clean_path rooted es, ''repos'', ''commons''] =
           clean_path rooted es @ ''/repos/commons''"
proof -
  have ne: "clean_path rooted es \<noteq> []"
    using join_slash_nonempty [OF assms] by (simp add: clean_path_def)
  have pl: "list_all plain_elem (es @ [''repos'', ''commons''])"
    using assms(2) by (simp add: plain_elem_def)
  have eq: "clean_path rooted es @ ''/repos/commons'' = clean_path rooted (es @ [''repos'', ''commons''])"
    using assms(1) by (simp add: clean_path_append)
  have "path_Join [clean_path rooted es, ''repos'', ''commons''] =
          path_Clean (clean_path rooted es @ ''/repos/commons'')"
    using ne by (simp add: path_Join_def)
  also have "\<dots> = clean_path rooted es @ ''/repos/commons''"
    unfolding eq using pl by (simp add: path_Clean_clean_path)
  finally show ?thesis .
qed

text \<open>
  C4. The initialization check answers what the directory service answers on one path,
  the join of the home directory with \<open>repos\<close> and \<open>commons\<close>, which for a clean
  home directory is the home directory followed by \<open>/repos/commons\<close>. It asks nothing
  else and leaves the filesystem as it was, so asking again gives the same answer.
\<close>

theorem initialized_iff_marker_exists:
  "ritchieIsInitialized ro w =
     (Exists (dir ro) (path_Join [ritchieHome ro, ''repos'', ''commons'']) (fs w),
      w\<lparr>trace := trace w @ [DirExists (path_Join [ritchieHome ro, ''repos'', ''commons''])]\<rparr>)
   \<and> fs (snd (ritchieIsInitialized ro w)) = fs w
   \<and> fst (ritchieIsInitialized ro (snd (ritchieIsInitialized ro w))) = fst (ritchieIsInitialized ro w)
   \<and> (es \<noteq> [] \<longrightarrow> list_all plain_elem es \<longrightarrow> ritchieHome ro = clean_path rooted es \<longrightarrow>
        fst (ritchieIsInitialized ro w) = Exists (dir ro) (ritchieHome ro @ ''/repos/commons'') (fs w))"
proof (intro conjI impI)
  show "ritchieIsInitialized ro w =
     (Exists (dir ro) (path_Join [ritchieHome ro, ''repos'', ''commons'']) (fs w),
      w\<lparr>trace := trace w @ [DirExists (path_Join [ritchieHome ro, ''repos'', ''commons''])]\<rparr>)"
    by (simp add: ritchieIsInitialized_eq initMarker_def)
  show "fs (snd (ritchieIsInitialized ro w)) = fs w"
    by (simp add: ritchieIsInitialized_eq)
  show "fst (ritchieIsInitialized ro (snd (ritchieIsInitialized ro w))) = fst (ritchieIsInitialized ro w)"
    by (simp add: ritchieIsInitialized_eq)
next
  assume "es \<noteq> []" and "list_all plain_elem es" and h: "ritchieHome ro = clean_path rooted es"
  then have "initMarker ro = ritchieHome ro @ ''/repos/commons''"
    by (simp add: initMarker_def path_Join_marker)
  then show "fst (ritchieIsInitialized ro w) = Exists (dir ro) (ritchieHome ro @ ''/repos/commons'') (fs w)"
    by (simp add: ritchieIsInitialized_eq)
qed

theorem initialized_iff_marker_exists_witness:
  "[''home'', ''u'', ''.rit''] \<noteq> []
   \<and> list_all plain_elem [''home'', ''u'', ''.rit'']
   \<and> ritchieHome example_root = clean_path True [''home'', ''u'', ''.rit'']
   \<and> fst (ritchieIsInitialized example_root initialized_world) = True
   \<and> fst (ritchieIsInitialized example_root fresh_world) = False"
proof -
  have h1: "[''home'', ''u'', ''.rit''] \<noteq> []" by simp
  have h2: "list_all plain_elem [''home'', ''u'', ''.rit'']" by (simp add: plain_elem_def)
  have h3: "ritchieHome example_root = clean_path True [''home'', ''u'', ''.rit'']"
    by (simp add: example_root_def clean_path_def)
  have t: "fst (ritchieIsInitialized example_root w) =
      Exists (dir example_root) (ritchieHome example_root @ ''/repos/commons'') (fs w)" for w
    using initialized_iff_marker_exists [of example_root w "[''home'', ''u'', ''.rit'']" True]
      h1 h2 h3 by blast
  have t1: "fst (ritchieIsInitialized example_root initialized_world) = True"
    unfolding t by (simp add: example_root_def mem_dir_def initialized_world_def)
  have t2: "fst (ritchieIsInitialized example_root fresh_world) = False"
    unfolding t by (simp add: example_root_def mem_dir_def fresh_world_def)
  from h1 h2 h3 t1 t2 show ?thesis by blast
qed

section \<open>The post-hook and the version check\<close>

lemma isWhitelist_upgrade: "isWhitelist upgradeWhitelist cmd \<longleftrightarrow> CommandPath cmd = ''rit''"
  by (auto simp add: isWhitelist_def upgradeWhitelist_eq)

lemma StableVersion_eq:
  "StableVersion env r w =
     (remote env (resolverUrl r) (httpTimeout r),
      w\<lparr>trace := trace w @ [HttpGet (resolverUrl r) (httpTimeout r)]\<rparr>)"
  by (simp add: StableVersion_def emit_def)

lemma VerifyNewVersion_eq:
  "VerifyNewVersion env r cur w =
     ((case remote env (resolverUrl r) (httpTimeout r) of
         Inl err \<Rightarrow> noNotice env
       | Inr v \<Rightarrow> if v = cur then noNotice env else upgradeNotice env v),
      w\<lparr>trace := trace w @ [HttpGet (resolverUrl r) (httpTimeout r)]\<rparr>)"
  by (simp add: VerifyNewVersion_def StableVersion_eq split: sum.splits)

lemma verifyNewVersion_other:
  "CommandPath cmd \<noteq> ''rit'' \<Longrightarrow> verifyNewVersion env cmd w = w"
  by (simp add: verifyNewVersion_def isWhitelist_upgrade)

lemma verifyNewVersion_root:
  "CommandPath cmd = ''rit'' \<Longrightarrow>
   verifyNewVersion env cmd w =
     w\<lparr>trace := trace w @
         [HttpGet (StableVersionUrl env) 1,
          Warning (case remote env (StableVersionUrl env) 1 of
                     Inl err \<Rightarrow> noNotice env
                   | Inr v \<Rightarrow> if v = Version env then noNotice env else upgradeNotice env v)]\<rparr>"
  by (simp add: verifyNewVersion_def isWhitelist_upgrade VerifyNewVersion_eq prompt_Warning_def
      emit_def)

lemma verifyNewVersion_fs: "fs (verifyNewVersion env cmd w) = fs w"
  by (cases "CommandPath cmd = ''rit''") (simp_all add: verifyNewVersion_other verifyNewVersion_root)

lemma tutorialRit_fs: "fs (tutorialRit s w) = fs w"
  by (simp add: tutorialRit_def fmt_Println_def prompt_Info_def emit_def)

lemma tutorialRit_HttpGet: "filter is_HttpGet (trace (tutorialRit s w)) = filter is_HttpGet (trace w)"
  by (simp add: tutorialRit_def fmt_Println_def prompt_Info_def emit_def)

lemma PostRunFunc_initialized:
  assumes "Exists (dir ro) (initMarker ro) (fs w)"
  shows "PostRunFunc env ro cmd w =
           (Return None,
            (verifyNewVersion env cmd w)
              \<lparr>trace := trace (verifyNewVersion env cmd w) @ [DirExists (initMarker ro)]\<rparr>)"
  using assms by (simp add: PostRunFunc_def ritchieIsInitialized_eq verifyNewVersion_fs Let_def)

lemma PostRunFunc_find_fails:
  assumes "\<not> Exists (dir ro) (initMarker ro) (fs w)" and "Find (rt ro) (fs w) = Inl err"
  shows "PostRunFunc env ro cmd w =
           (Return (Some err),
            (verifyNewVersion env cmd w)
              \<lparr>trace := trace (verifyNewVersion env cmd w) @ [DirExists (initMarker ro), TutorialFind]\<rparr>)"
  using assms
  by (simp add: PostRunFunc_def ritchieIsInitialized_eq verifyNewVersion_fs Let_def rt_Find_def
      emit_def)

lemma PostRunFunc_find_ok:
  assumes "\<not> Exists (dir ro) (initMarker ro) (fs w)" and "Find (rt ro) (fs w) = Inr holder"
  shows "PostRunFunc env ro cmd w =
           (Return None,
            tutorialRit (Current holder)
              ((verifyNewVersion env cmd w)
                 \<lparr>trace := trace (verifyNewVersion env cmd w) @ [DirExists (initMarker ro), TutorialFind]\<rparr>))"
  using assms
  by (simp add: PostRunFunc_def ritchieIsInitialized_eq verifyNewVersion_fs Let_def rt_Find_def
      emit_def)

lemma PostRunFunc_outcome:
  "fst (PostRunFunc env ro cmd w) =
     (if Exists (dir ro) (initMarker ro) (fs w) then Return None
      else (case Find (rt ro) (fs w) of Inl err \<Rightarrow> Return (Some err) | Inr holder \<Rightarrow> Return None))"
proof (cases "Exists (dir ro) (initMarker ro) (fs w)")
  case True
  then show ?thesis by (simp add: PostRunFunc_initialized)
next
  case False
  then show ?thesis
    by (cases "Find (rt ro) (fs w)") (simp_all add: PostRunFunc_find_fails PostRunFunc_find_ok)
qed

lemma PostRunFunc_HttpGet:
  "filter is_HttpGet (trace (snd (PostRunFunc env ro cmd w))) =
     filter is_HttpGet (trace (verifyNewVersion env cmd w))"
proof (cases "Exists (dir ro) (initMarker ro) (fs w)")
  case True
  then show ?thesis by (simp add: PostRunFunc_initialized)
next
  case False
  then show ?thesis
    by (cases "Find (rt ro) (fs w)")
      (simp_all add: PostRunFunc_find_fails PostRunFunc_find_ok tutorialRit_HttpGet)
qed

text \<open>
  C5. The upgrade whitelist holds the bare root path only. For any other command path
  \<open>verifyNewVersion\<close> does nothing at all and the whole post-hook makes no request to
  the stable-version endpoint; for the bare root path it makes exactly one, with a
  timeout of one second.
\<close>

theorem upgrade_check_only_for_root:
  "upgradeWhitelist = [''rit'']
   \<and> (CommandPath cmd \<noteq> ''rit'' \<longrightarrow>
        verifyNewVersion env cmd w = w
        \<and> filter is_HttpGet (trace (snd (PostRunFunc env ro cmd w))) = filter is_HttpGet (trace w))
   \<and> (CommandPath cmd = ''rit'' \<longrightarrow>
        filter is_HttpGet (trace (snd (PostRunFunc env ro cmd w))) =
          filter is_HttpGet (trace w) @ [HttpGet (StableVersionUrl env) 1])"
proof (intro conjI impI)
  show "upgradeWhitelist = [''rit'']" by (rule upgradeWhitelist_eq)
next
  assume "CommandPath cmd \<noteq> ''rit''"
  then show "verifyNewVersion env cmd w = w" by (rule verifyNewVersion_other)
  then show "filter is_HttpGet (trace (snd (PostRunFunc env ro cmd w))) = filter is_HttpGet (trace w)"
    by (simp add: PostRunFunc_HttpGet)
next
  assume "CommandPath cmd = ''rit''"
  then show "filter is_HttpGet (trace (snd (PostRunFunc env ro cmd w))) =
          filter is_HttpGet (trace w) @ [HttpGet (StableVersionUrl env) 1]"
    by (simp add: PostRunFunc_HttpGet verifyNewVersion_root)
qed

theorem upgrade_check_only_for_root_witness:
  "CommandPath \<lparr>CommandPath = ''rit init''\<rparr> \<noteq> ''rit''
   \<and> verifyNewVersion example_env \<lparr>CommandPath = ''rit init''\<rparr> fresh_world = fresh_world
   \<and> filter is_HttpGet
       (trace (snd (PostRunFunc example_env example_root \<lparr>CommandPath = ''rit init''\<rparr> fresh_world))) = []
   \<and> CommandPath \<lparr>CommandPath = ''rit''\<rparr> = ''rit''
   \<and> filter is_HttpGet
       (trace (snd (PostRunFunc example_env example_root \<lparr>CommandPath = ''rit''\<rparr> fresh_world))) =
       [HttpGet ''https://commons-repo.ritchiecli.io/stable.txt'' 1]"
proof -
  have h1: "CommandPath \<lparr>CommandPath = ''rit init''\<rparr> \<noteq> ''rit''" by simp
  have h2: "CommandPath \<lparr>CommandPath = ''rit''\<rparr> = ''rit''" by simp
  have e: "filter is_HttpGet (trace fresh_world) = []" by (simp add: fresh_world_def)
  have u: "StableVersionUrl example_env = ''https://commons-repo.ritchiecli.io/stable.txt''"
    by (simp add: example_env_def)
  from upgrade_check_only_for_root [of "\<lparr>CommandPath = ''rit init''\<rparr>" example_env fresh_world example_root]
    h1
  have a: "verifyNewVersion example_env \<lparr>CommandPath = ''rit init''\<rparr> fresh_world = fresh_world"
    and b: "filter is_HttpGet
       (trace (snd (PostRunFunc example_env example_root \<lparr>CommandPath = ''rit init''\<rparr> fresh_world))) = []"
    unfolding e by blast+
  from upgrade_check_only_for_root [of "\<lparr>CommandPath = ''rit''\<rparr>" example_env fresh_world example_root]
    h2
  have c: "filter is_HttpGet
       (trace (snd (PostRunFunc example_env example_root \<lparr>CommandPath = ''rit''\<rparr> fresh_world))) =
       [HttpGet ''https://commons-repo.ritchiecli.io/stable.txt'' 1]"
    unfolding e u by simp
  from h1 a b h2 c show ?thesis by blast
qed


text \<open>
  C6. What the post-hook returns does not depend on the environment of the version
  check: it is decided by the initialization marker and the tutorial finder alone. When
  the resolution of the stable version fails, \<open>VerifyNewVersion\<close> yields the message
  without notice, which is what the bare root command then shows.
\<close>

theorem version_failure_not_surfaced:
  "fst (PostRunFunc env ro cmd w) = fst (PostRunFunc env' ro cmd w)
   \<and> fst (PostRunFunc env ro cmd w) =
       (if Exists (dir ro) (initMarker ro) (fs w) then Return None
        else (case Find (rt ro) (fs w) of Inl err \<Rightarrow> Return (Some err) | Inr holder \<Rightarrow> Return None))
   \<and> (remote env (StableVersionUrl env) 1 = Inl e \<longrightarrow>
        fst (VerifyNewVersion env \<lparr>resolverUrl = StableVersionUrl env, httpTimeout = 1\<rparr> (Version env) w)
          = noNotice env
        \<and> (CommandPath cmd = ''rit'' \<longrightarrow>
             verifyNewVersion env cmd w =
               w\<lparr>trace := trace w @ [HttpGet (StableVersionUrl env) 1, Warning (noNotice env)]\<rparr>))"
proof (intro conjI impI)
  show "fst (PostRunFunc env ro cmd w) = fst (PostRunFunc env' ro cmd w)"
    by (simp only: PostRunFunc_outcome)
  show "fst (PostRunFunc env ro cmd w) =
       (if Exists (dir ro) (initMarker ro) (fs w) then Return None
        else (case Find (rt ro) (fs w) of Inl err \<Rightarrow> Return (Some err) | Inr holder \<Rightarrow> Return None))"
    by (rule PostRunFunc_outcome)
next
  assume r: "remote env (StableVersionUrl env) 1 = Inl e"
  then show "fst (VerifyNewVersion env \<lparr>resolverUrl = StableVersionUrl env, httpTimeout = 1\<rparr> (Version env) w)
          = noNotice env"
    by (simp add: VerifyNewVersion_eq)
  assume "CommandPath cmd = ''rit''"
  with r show "verifyNewVersion env cmd w =
               w\<lparr>trace := trace w @ [HttpGet (StableVersionUrl env) 1, Warning (noNotice env)]\<rparr>"
    by (simp add: verifyNewVersion_root)
qed

theorem version_failure_not_surfaced_witness:
  "remote offline_env (StableVersionUrl offline_env) 1 = Inl ''Get: context deadline exceeded''
   \<and> CommandPath \<lparr>CommandPath = ''rit''\<rparr> = ''rit''
   \<and> verifyNewVersion offline_env \<lparr>CommandPath = ''rit''\<rparr> initialized_world =
       \<lparr>fs = [''/home/u/.rit'', ''/home/u/.rit/repos/commons''],
        trace = [HttpGet ''https://commons-repo.ritchiecli.io/stable.txt'' 1, Warning []]\<rparr>
   \<and> fst (PostRunFunc offline_env example_root \<lparr>CommandPath = ''rit''\<rparr> initialized_world) = Return None"
proof -
  have h1: "remote offline_env (StableVersionUrl offline_env) 1 = Inl ''Get: context deadline exceeded''"
    by (simp add: offline_env_def)
  have h2: "CommandPath \<lparr>CommandPath = ''rit''\<rparr> = ''rit''" by simp
  have m: "Exists (dir example_root) (initMarker example_root) (fs initialized_world)"
    by (simp add: initMarker_example) (simp add: example_root_def mem_dir_def initialized_world_def)
  note t = version_failure_not_surfaced [of offline_env example_root "\<lparr>CommandPath = ''rit''\<rparr>"
      initialized_world offline_env "''Get: context deadline exceeded''"]
  from t h1 h2 have a: "verifyNewVersion offline_env \<lparr>CommandPath = ''rit''\<rparr> initialized_world =
       initialized_world\<lparr>trace := trace initialized_world @
         [HttpGet (StableVersionUrl offline_env) 1, Warning (noNotice offline_env)]\<rparr>"
    by blast
  from t m have b: "fst (PostRunFunc offline_env example_root \<lparr>CommandPath = ''rit''\<rparr> initialized_world) = Return None"
    by simp
  from a have a': "verifyNewVersion offline_env \<lparr>CommandPath = ''rit''\<rparr> initialized_world =
       \<lparr>fs = [''/home/u/.rit'', ''/home/u/.rit/repos/commons''],
        trace = [HttpGet ''https://commons-repo.ritchiecli.io/stable.txt'' 1, Warning []]\<rparr>"
    by (simp add: offline_env_def example_env_def initialized_world_def)
  from h1 h2 a' b show ?thesis by blast
qed

text \<open>
  C7. When the tool is not initialized and the tutorial finder fails, the post-hook
  returns the finder's error, and so does the invocation. The post-hook returns an error
  in no other case, and it never ends the process.
\<close>

theorem tutorial_error_surfaced:
  "(\<not> Exists (dir ro) (initMarker ro) (fs w) \<and> Find (rt ro) (fs w) = Inl err
      \<longrightarrow> fst (PostRunFunc env ro cmd w) = Return (Some err))
   \<and> (fst (PostRunFunc env ro cmd w) = Return (Some err)
      \<longrightarrow> \<not> Exists (dir ro) (initMarker ro) (fs w) \<and> Find (rt ro) (fs w) = Inl err)
   \<and> fst (PostRunFunc env ro cmd w) \<noteq> Exit c
   \<and> (PreRunFunc ro cmd w0 = (Return None, w1) \<and> body (fs w1) = (Return None, fs2)
        \<and> \<not> Exists (dir ro) (initMarker ro) fs2 \<and> Find (rt ro) fs2 = Inl err
      \<longrightarrow> fst (execute env ro body cmd w0) = Return (Some err))"
proof (intro conjI impI)
  assume "\<not> Exists (dir ro) (initMarker ro) (fs w) \<and> Find (rt ro) (fs w) = Inl err"
  then show "fst (PostRunFunc env ro cmd w) = Return (Some err)"
    by (simp add: PostRunFunc_outcome)
next
  assume a: "fst (PostRunFunc env ro cmd w) = Return (Some err)"
  then show "\<not> Exists (dir ro) (initMarker ro) (fs w)"
    by (simp add: PostRunFunc_outcome split: if_splits)
  from a show "Find (rt ro) (fs w) = Inl err"
    by (simp add: PostRunFunc_outcome split: if_splits sum.splits)
next
  show "fst (PostRunFunc env ro cmd w) \<noteq> Exit c"
    by (simp add: PostRunFunc_outcome split: sum.splits)
next
  assume a: "PreRunFunc ro cmd w0 = (Return None, w1) \<and> body (fs w1) = (Return None, fs2)
        \<and> \<not> Exists (dir ro) (initMarker ro) fs2 \<and> Find (rt ro) fs2 = Inl err"
  then have "execute env ro body cmd w0 = PostRunFunc env ro cmd \<lparr>fs = fs2, trace = trace w1 @ [RunBody]\<rparr>"
    by (simp add: execute_def)
  with a show "fst (execute env ro body cmd w0) = Return (Some err)"
    by (simp add: PostRunFunc_outcome)
qed

lemma broken_marker: "initMarker broken_tutorial_root = ''/home/u/.rit/repos/commons''"
  using initMarker_example by (simp add: initMarker_def broken_tutorial_root_def example_root_def)

theorem tutorial_error_surfaced_witness:
  "\<not> Exists (dir broken_tutorial_root) (initMarker broken_tutorial_root) (fs fresh_world)
   \<and> Find (rt broken_tutorial_root) (fs fresh_world) = Inl ''tutorial file unreadable''
   \<and> fst (PostRunFunc example_env broken_tutorial_root \<lparr>CommandPath = ''rit init''\<rparr> fresh_world) =
       Return (Some ''tutorial file unreadable'')
   \<and> PreRunFunc broken_tutorial_root \<lparr>CommandPath = ''rit init''\<rparr> fresh_world =
       (Return None, \<lparr>fs = [''/home/u/.rit''], trace = [DirCreate ''/home/u/.rit'']\<rparr>)
   \<and> noop_body [''/home/u/.rit''] = (Return None, [''/home/u/.rit''])
   \<and> fst (execute example_env broken_tutorial_root noop_body \<lparr>CommandPath = ''rit init''\<rparr> fresh_world) =
       Return (Some ''tutorial file unreadable'')"
proof -
  have h1: "\<not> Exists (dir broken_tutorial_root) (initMarker broken_tutorial_root) (fs fresh_world)"
    by (simp add: broken_marker) (simp add: broken_tutorial_root_def mem_dir_def fresh_world_def)
  have h2: "Find (rt broken_tutorial_root) (fs fresh_world) = Inl ''tutorial file unreadable''"
    by (simp add: broken_tutorial_root_def finder_broken_def)
  have c: "Create (dir broken_tutorial_root) (ritchieHome broken_tutorial_root) (fs fresh_world) =
      (None, [''/home/u/.rit''])"
    by (simp add: broken_tutorial_root_def mem_dir_def fresh_world_def)
  have ex: "exempt \<lparr>CommandPath = ''rit init''\<rparr>"
    by (simp add: exempt_def isWhitelist_def whitelist_eq)
  have h3: "PreRunFunc broken_tutorial_root \<lparr>CommandPath = ''rit init''\<rparr> fresh_world =
       (Return None, \<lparr>fs = [''/home/u/.rit''], trace = [DirCreate ''/home/u/.rit'']\<rparr>)"
    using PreRunFunc_exempt [OF c ex] by (simp add: broken_tutorial_root_def fresh_world_def)
  have h4: "noop_body [''/home/u/.rit''] = (Return None, [''/home/u/.rit''])"
    by (simp add: noop_body_def)
  have h5: "\<not> Exists (dir broken_tutorial_root) (initMarker broken_tutorial_root) [''/home/u/.rit'']"
    by (simp add: broken_marker) (simp add: broken_tutorial_root_def mem_dir_def)
  have h6: "Find (rt broken_tutorial_root) [''/home/u/.rit''] = Inl ''tutorial file unreadable''"
    by (simp add: broken_tutorial_root_def finder_broken_def)
  note t = tutorial_error_surfaced [of broken_tutorial_root fresh_world "''tutorial file unreadable''"
      example_env "\<lparr>CommandPath = ''rit init''\<rparr>" 0 fresh_world
      "\<lparr>fs = [''/home/u/.rit''], trace = [DirCreate ''/home/u/.rit'']\<rparr>" noop_body "[''/home/u/.rit'']"]
  from t h1 h2 have a: "fst (PostRunFunc example_env broken_tutorial_root \<lparr>CommandPath = ''rit init''\<rparr> fresh_world) =
       Return (Some ''tutorial file unreadable'')"
    by blast
  from t h3 h4 h5 h6 have b: "fst (execute example_env broken_tutorial_root noop_body \<lparr>CommandPath = ''rit init''\<rparr> fresh_world) =
       Return (Some ''tutorial file unreadable'')"
    by simp
  from h1 h2 a h3 h4 b show ?thesis by blast
qed

section \<open>The version flag\<close>

lemma Sprintf_versionMsg:
  "Sprintf versionMsg [a, b, c] =
     a @ [CHR 0x0A] @ ''  Build date: '' @ b @ [CHR 0x0A] @ ''  Built with: '' @ c @ [CHR 0x0A]"
  by (simp add: versionMsg_def)

lemma Sprintf_versionMsgWithLatestVersion:
  "Sprintf versionMsgWithLatestVersion [a, l, b, c] =
     a @ [CHR 0x0A] @ ''  '' @ l @ [CHR 0x0A] @ ''  Build date: '' @ b @ [CHR 0x0A]
       @ ''  Built with: '' @ c @ [CHR 0x0A]"
  by (simp add: versionMsgWithLatestVersion_def)

lemma Sprintf_latestVersionMsg: "Sprintf latestVersionMsg [v] = ''Latest available version: '' @ v"
  by (simp add: latestVersionMsg_def)

lemma versionFlag_eq:
  "versionFlag env w =
     ((case remote env (StableVersionUrl env) 1 of
         Inl err \<Rightarrow> plainVersionText env
       | Inr v \<Rightarrow> if v = Version env then plainVersionText env else noticeVersionText env v),
      w\<lparr>trace := trace w @ [HttpGet (StableVersionUrl env) 1]\<rparr>)"
  by (simp add: versionFlag_def StableVersion_eq Sprintf_versionMsg
      Sprintf_versionMsgWithLatestVersion Sprintf_latestVersionMsg plainVersionText_def
      noticeVersionText_def Let_def split: sum.splits)

text \<open>
  C8. \<open>versionFlag\<close> makes one request for the stable version, with a timeout of one
  second, and nothing else. When the request succeeds with a string different from the
  running version, the text is the format with notice, holding the remote version; when
  it fails, or the strings are equal, the text is the plain format with the build
  metadata only.
\<close>

theorem version_flag_text:
  "snd (versionFlag env w) = w\<lparr>trace := trace w @ [HttpGet (StableVersionUrl env) 1]\<rparr>
   \<and> (remote env (StableVersionUrl env) 1 = Inr latest \<and> latest \<noteq> Version env
        \<longrightarrow> fst (versionFlag env w) = noticeVersionText env latest)
   \<and> (remote env (StableVersionUrl env) 1 = Inr (Version env)
        \<longrightarrow> fst (versionFlag env w) = plainVersionText env)
   \<and> (remote env (StableVersionUrl env) 1 = Inl err
        \<longrightarrow> fst (versionFlag env w) = plainVersionText env)"
  by (simp add: versionFlag_eq)

theorem version_flag_text_witness:
  "remote example_env (StableVersionUrl example_env) 1 = Inr ''2.1.0'' \<and> ''2.1.0'' \<noteq> Version example_env
   \<and> fst (versionFlag example_env fresh_world) =
       ''2.0.0'' @ [CHR 0x0A] @ ''  <yellow>Latest available version: 2.1.0</yellow>'' @ [CHR 0x0A]
         @ ''  Build date: 2020-08-01'' @ [CHR 0x0A] @ ''  Built with: go1.14'' @ [CHR 0x0A]
   \<and> remote current_env (StableVersionUrl current_env) 1 = Inr (Version current_env)
   \<and> fst (versionFlag current_env fresh_world) =
       ''2.0.0'' @ [CHR 0x0A] @ ''  Build date: 2020-08-01'' @ [CHR 0x0A] @ ''  Built with: go1.14'' @ [CHR 0x0A]
   \<and> remote offline_env (StableVersionUrl offline_env) 1 = Inl ''Get: context deadline exceeded''
   \<and> fst (versionFlag offline_env fresh_world) =
       ''2.0.0'' @ [CHR 0x0A] @ ''  Build date: 2020-08-01'' @ [CHR 0x0A] @ ''  Built with: go1.14'' @ [CHR 0x0A]"
proof -
  have h1: "remote example_env (StableVersionUrl example_env) 1 = Inr ''2.1.0'' \<and> ''2.1.0'' \<noteq> Version example_env"
    by (simp add: example_env_def)
  have h2: "remote current_env (StableVersionUrl current_env) 1 = Inr (Version current_env)"
    by (simp add: current_env_def example_env_def)
  have h3: "remote offline_env (StableVersionUrl offline_env) 1 = Inl ''Get: context deadline exceeded''"
    by (simp add: offline_env_def)
  from version_flag_text [of example_env fresh_world "''2.1.0''"] h1
  have a: "fst (versionFlag example_env fresh_world) = noticeVersionText example_env ''2.1.0''"
    by blast
  from version_flag_text [of current_env fresh_world] h2
  have b: "fst (versionFlag current_env fresh_world) = plainVersionText current_env"
    by blast
  from version_flag_text [of offline_env fresh_world _ "''Get: context deadline exceeded''"] h3
  have c: "fst (versionFlag offline_env fresh_world) = plainVersionText offline_env"
    by blast
  have a': "noticeVersionText example_env ''2.1.0'' =
       ''2.0.0'' @ [CHR 0x0A] @ ''  <yellow>Latest available version: 2.1.0</yellow>'' @ [CHR 0x0A]
         @ ''  Build date: 2020-08-01'' @ [CHR 0x0A] @ ''  Built with: go1.14'' @ [CHR 0x0A]"
    by (simp add: noticeVersionText_def example_env_def)
  have b': "plainVersionText current_env =
       ''2.0.0'' @ [CHR 0x0A] @ ''  Build date: 2020-08-01'' @ [CHR 0x0A] @ ''  Built with: go1.14'' @ [CHR 0x0A]"
    by (simp add: plainVersionText_def current_env_def example_env_def)
  have c': "plainVersionText offline_env =
       ''2.0.0'' @ [CHR 0x0A] @ ''  Build date: 2020-08-01'' @ [CHR 0x0A] @ ''  Built with: go1.14'' @ [CHR 0x0A]"
    by (simp add: plainVersionText_def offline_env_def example_env_def)
  from h1 h2 h3 a b c show ?thesis unfolding a' b' c' by blast
qed

section \<open>The tutorial and the initialization gate\<close>

lemma verifyNewVersion_tutorial:
  "filter is_tutorial (trace (verifyNewVersion env cmd w)) = filter is_tutorial (trace w)"
  by (cases "CommandPath cmd = ''rit''") (simp_all add: verifyNewVersion_other verifyNewVersion_root)

lemma PostRunFunc_initialized_tutorial:
  assumes "Exists (dir ro) (initMarker ro) (fs w)"
  shows "filter is_tutorial (trace (snd (PostRunFunc env ro cmd w))) = filter is_tutorial (trace w)"
  using assms by (simp add: PostRunFunc_initialized verifyNewVersion_tutorial)

lemma execute_gate_open:
  assumes "PreRunFunc ro cmd w = (Return None, w1)" and "body (fs w1) = (b, fs2)"
    and "Exists (dir ro) (initMarker ro) fs2"
  shows "fst (execute env ro body cmd w) = b"
    and "filter is_tutorial (trace (snd (execute env ro body cmd w))) = filter is_tutorial (trace w1)"
proof -
  let ?w2 = "\<lparr>fs = fs2, trace = trace w1 @ [RunBody]\<rparr>"
  have m: "Exists (dir ro) (initMarker ro) (fs ?w2)" using assms(3) by simp
  show "fst (execute env ro body cmd w) = b"
  proof (cases b)
    case (Exit c)
    with assms(1,2) show ?thesis by (simp add: execute_def)
  next
    case (Return e)
    show ?thesis
    proof (cases e)
      case (Some err)
      with Return assms(1,2) show ?thesis by (simp add: execute_def)
    next
      case None
      with Return assms(1,2) have "execute env ro body cmd w = PostRunFunc env ro cmd ?w2"
        by (simp add: execute_def)
      with m Return None show ?thesis by (simp add: PostRunFunc_outcome)
    qed
  qed
  show "filter is_tutorial (trace (snd (execute env ro body cmd w))) = filter is_tutorial (trace w1)"
  proof (cases b)
    case (Exit c)
    with assms(1,2) show ?thesis by (simp add: execute_def)
  next
    case (Return e)
    show ?thesis
    proof (cases e)
      case (Some err)
      with Return assms(1,2) show ?thesis by (simp add: execute_def)
    next
      case None
      with Return assms(1,2) have "execute env ro body cmd w = PostRunFunc env ro cmd ?w2"
        by (simp add: execute_def)
      with PostRunFunc_initialized_tutorial [OF m, of env cmd] show ?thesis by simp
    qed
  qed
qed

text \<open>
  C10, amended. For a command that is not exempt from the initialization gate and whose
  body leaves the existence of the initialization marker as it found it, an invocation
  never queries the tutorial finder and never shows the banner: it ends with the
  creation error, or with exit status 0 at the gate, or with the outcome of the body.
  The post-hook queries the finder only when the marker is absent.
\<close>

theorem tutorial_needs_marker_change:
  assumes "CommandPath cmd \<notin> set whitelist"
    and "\<not> (\<exists>p q. CommandPath cmd = p @ ''__complete'' @ q)"
    and "Create (dir ro) (ritchieHome ro) (fs w) = (r, fs1)"
    and "body fs1 = (b, fs2)"
    and "Exists (dir ro) (initMarker ro) fs2 = Exists (dir ro) (initMarker ro) fs1"
  shows "filter is_tutorial (trace (snd (execute env ro body cmd w))) = filter is_tutorial (trace w)
       \<and> fst (execute env ro body cmd w) =
           (case r of
              Some err \<Rightarrow> Return (Some err)
            | None \<Rightarrow> if Exists (dir ro) (initMarker ro) fs1 then b else Exit 0)
       \<and> (Exists (dir ro) (initMarker ro) (fs w') \<longrightarrow>
            filter is_tutorial (trace (snd (PostRunFunc env ro cmd' w'))) = filter is_tutorial (trace w'))"
proof -
  from assms(1,2) have ne: "\<not> exempt cmd" by (simp add: exempt_iff)
  have post: "Exists (dir ro) (initMarker ro) (fs w') \<longrightarrow>
      filter is_tutorial (trace (snd (PostRunFunc env ro cmd' w'))) = filter is_tutorial (trace w')"
    by (simp add: PostRunFunc_initialized_tutorial)
  have main: "filter is_tutorial (trace (snd (execute env ro body cmd w))) = filter is_tutorial (trace w)
       \<and> fst (execute env ro body cmd w) =
           (case r of
              Some err \<Rightarrow> Return (Some err)
            | None \<Rightarrow> if Exists (dir ro) (initMarker ro) fs1 then b else Exit 0)"
  proof (cases r)
    case (Some err)
    with assms(3) have "PreRunFunc ro cmd w =
        (Return (Some err), \<lparr>fs = fs1, trace = trace w @ [DirCreate (ritchieHome ro)]\<rparr>)"
      by (simp add: PreRunFunc_create_fails)
    then have "execute env ro body cmd w =
        (Return (Some err), \<lparr>fs = fs1, trace = trace w @ [DirCreate (ritchieHome ro)]\<rparr>)"
      by (simp add: execute_pre_stops)
    with Some show ?thesis by simp
  next
    case None
    show ?thesis
    proof (cases "Exists (dir ro) (initMarker ro) fs1")
      case False
      with assms(3) None ne have "PreRunFunc ro cmd w =
          (Exit 0, \<lparr>fs = fs1, trace = trace w @
             [DirCreate (ritchieHome ro), DirExists (initMarker ro), Println MsgInit]\<rparr>)"
        by (simp add: PreRunFunc_gate_closed)
      then have "execute env ro body cmd w =
          (Exit 0, \<lparr>fs = fs1, trace = trace w @
             [DirCreate (ritchieHome ro), DirExists (initMarker ro), Println MsgInit]\<rparr>)"
        by (simp add: execute_pre_stops)
      with None False show ?thesis by simp
    next
      case True
      let ?w1 = "\<lparr>fs = fs1, trace = trace w @ [DirCreate (ritchieHome ro), DirExists (initMarker ro)]\<rparr>"
      from assms(3) None ne True have p: "PreRunFunc ro cmd w = (Return None, ?w1)"
        by (simp add: PreRunFunc_gate_open)
      have bd: "body (fs ?w1) = (b, fs2)" using assms(4) by simp
      from True assms(5) have m2: "Exists (dir ro) (initMarker ro) fs2" by simp
      from execute_gate_open [where body = body and env = env, OF p bd m2] None True show ?thesis by simp
    qed
  qed
  from main post show ?thesis by blast
qed

theorem tutorial_needs_marker_change_witness:
  "CommandPath \<lparr>CommandPath = ''rit sub''\<rparr> \<notin> set whitelist
   \<and> \<not> (\<exists>p q. CommandPath \<lparr>CommandPath = ''rit sub''\<rparr> = p @ ''__complete'' @ q)
   \<and> Create (dir example_root) (ritchieHome example_root) (fs initialized_world) =
       (None, [''/home/u/.rit'', ''/home/u/.rit/repos/commons''])
   \<and> noop_body [''/home/u/.rit'', ''/home/u/.rit/repos/commons''] =
       (Return None, [''/home/u/.rit'', ''/home/u/.rit/repos/commons''])
   \<and> Exists (dir example_root) (initMarker example_root) [''/home/u/.rit'', ''/home/u/.rit/repos/commons'']
   \<and> filter is_tutorial
       (trace (snd (execute example_env example_root noop_body \<lparr>CommandPath = ''rit sub''\<rparr> initialized_world))) = []
   \<and> fst (execute example_env example_root noop_body \<lparr>CommandPath = ''rit sub''\<rparr> initialized_world) =
       Return None"
proof -
  have h1: "CommandPath \<lparr>CommandPath = ''rit sub''\<rparr> \<notin> set whitelist"
    by (simp add: whitelist_eq)
  have h2: "\<not> (\<exists>p q. CommandPath \<lparr>CommandPath = ''rit sub''\<rparr> = p @ ''__complete'' @ q)"
    using not_complete_rit_sub by simp
  have h3: "Create (dir example_root) (ritchieHome example_root) (fs initialized_world) =
       (None, [''/home/u/.rit'', ''/home/u/.rit/repos/commons''])"
    by (simp add: example_root_def mem_dir_def initialized_world_def)
  have h4: "noop_body [''/home/u/.rit'', ''/home/u/.rit/repos/commons''] =
       (Return None, [''/home/u/.rit'', ''/home/u/.rit/repos/commons''])"
    by (simp add: noop_body_def)
  have m: "Exists (dir example_root) (initMarker example_root) [''/home/u/.rit'', ''/home/u/.rit/repos/commons'']"
    by (simp add: initMarker_example) (simp add: example_root_def mem_dir_def)
  have e: "filter is_tutorial (trace initialized_world) = []"
    by (simp add: initialized_world_def)
  from tutorial_needs_marker_change [where body = noop_body and env = example_env, OF h1 h2 h3 h4] m e
  have a: "filter is_tutorial
       (trace (snd (execute example_env example_root noop_body \<lparr>CommandPath = ''rit sub''\<rparr> initialized_world))) = []"
   and b: "fst (execute example_env example_root noop_body \<lparr>CommandPath = ''rit sub''\<rparr> initialized_world) =
       Return None"
    by simp_all
  from h1 h2 h3 h4 m a b show ?thesis by blast
qed

text \<open>
  C10 as stated fails for a command outside the whitelist whose body removes the marker:
  the gate lets it pass, the post-hook then finds the tool not initialized, queries the
  finder and shows the banner, or returns the finder's error.
\<close>

theorem tutorial_after_marker_removed_counterexample:
  "isWhitelist whitelist \<lparr>CommandPath = ''rit delete repo''\<rparr> = False
   \<and> isCompleteCmd \<lparr>CommandPath = ''rit delete repo''\<rparr> = False
   \<and> execute example_env example_root delete_commons_body \<lparr>CommandPath = ''rit delete repo''\<rparr>
       initialized_world =
       (Return None,
        \<lparr>fs = [''/home/u/.rit''],
         trace = [DirCreate ''/home/u/.rit'', DirExists ''/home/u/.rit/repos/commons'', RunBody,
                  DirExists ''/home/u/.rit/repos/commons'', TutorialFind,
                  Info ([CHR 0x0A] @ ''[TUTORIAL]''), Info ''To initialize the ritchie:'',
                  Println ('' '' @ [CHR 0xE2, CHR 0x88, CHR 0x99] @ '' Run '' @ [CHR 0x22]
                             @ ''rit init'' @ [CHR 0x22, CHR 0x0A])]\<rparr>)
   \<and> execute example_env broken_tutorial_root delete_commons_body \<lparr>CommandPath = ''rit delete repo''\<rparr>
       initialized_world =
       (Return (Some ''tutorial file unreadable''),
        \<lparr>fs = [''/home/u/.rit''],
         trace = [DirCreate ''/home/u/.rit'', DirExists ''/home/u/.rit/repos/commons'', RunBody,
                  DirExists ''/home/u/.rit/repos/commons'', TutorialFind]\<rparr>)"
proof -
  let ?c = "\<lparr>CommandPath = ''rit delete repo''\<rparr>"
  have a: "isWhitelist whitelist ?c = False"
    by (simp add: isWhitelist_def whitelist_eq)
  have b: "isCompleteCmd ?c = False"
    by (simp add: isCompleteCmd_def)
  from a b have ne: "\<not> exempt ?c" by (simp add: exempt_def)
  have nr: "CommandPath ?c \<noteq> ''rit''" by simp
  have c1: "Create (dir example_root) (ritchieHome example_root) (fs initialized_world) =
       (None, [''/home/u/.rit'', ''/home/u/.rit/repos/commons''])"
    by (simp add: example_root_def mem_dir_def initialized_world_def)
  have m1: "Exists (dir example_root) (initMarker example_root) [''/home/u/.rit'', ''/home/u/.rit/repos/commons'']"
    by (simp add: initMarker_example) (simp add: example_root_def mem_dir_def)
  have p1: "PreRunFunc example_root ?c initialized_world =
      (Return None, \<lparr>fs = [''/home/u/.rit'', ''/home/u/.rit/repos/commons''],
         trace = [DirCreate ''/home/u/.rit'', DirExists ''/home/u/.rit/repos/commons'']\<rparr>)"
    using PreRunFunc_gate_open [OF c1 ne m1]
    by (simp add: initMarker_example) (simp add: example_root_def initialized_world_def)
  let ?w2 = "\<lparr>fs = [''/home/u/.rit''],
         trace = [DirCreate ''/home/u/.rit'', DirExists ''/home/u/.rit/repos/commons'', RunBody]\<rparr>"
  have bd: "delete_commons_body [''/home/u/.rit'', ''/home/u/.rit/repos/commons''] = (Return None, [''/home/u/.rit''])"
    by (simp add: delete_commons_body_def)
  have e1: "execute example_env example_root delete_commons_body ?c initialized_world =
      PostRunFunc example_env example_root ?c ?w2"
    using p1 bd by (simp add: execute_def)
  have m2: "\<not> Exists (dir example_root) (initMarker example_root) (fs ?w2)"
    by (simp add: initMarker_example) (simp add: example_root_def mem_dir_def)
  have f1: "Find (rt example_root) (fs ?w2) = Inr \<lparr>Current = ''on''\<rparr>"
    by (simp add: example_root_def finder_on_def)
  have r1: "PostRunFunc example_env example_root ?c ?w2 =
      (Return None,
        \<lparr>fs = [''/home/u/.rit''],
         trace = [DirCreate ''/home/u/.rit'', DirExists ''/home/u/.rit/repos/commons'', RunBody,
                  DirExists ''/home/u/.rit/repos/commons'', TutorialFind,
                  Info ([CHR 0x0A] @ ''[TUTORIAL]''), Info ''To initialize the ritchie:'',
                  Println ('' '' @ [CHR 0xE2, CHR 0x88, CHR 0x99] @ '' Run '' @ [CHR 0x22]
                             @ ''rit init'' @ [CHR 0x22, CHR 0x0A])]\<rparr>)"
    using PostRunFunc_find_ok [OF m2 f1, of example_env ?c] nr
    by (simp add: verifyNewVersion_other initMarker_example tutorialRit_def tutorialStatusOn_def
        fmt_Println_def prompt_Info_def emit_def)
  have c2: "Create (dir broken_tutorial_root) (ritchieHome broken_tutorial_root) (fs initialized_world) =
       (None, [''/home/u/.rit'', ''/home/u/.rit/repos/commons''])"
    by (simp add: broken_tutorial_root_def mem_dir_def initialized_world_def)
  have m3: "Exists (dir broken_tutorial_root) (initMarker broken_tutorial_root) [''/home/u/.rit'', ''/home/u/.rit/repos/commons'']"
    by (simp add: broken_marker) (simp add: broken_tutorial_root_def mem_dir_def)
  have p2: "PreRunFunc broken_tutorial_root ?c initialized_world =
      (Return None, \<lparr>fs = [''/home/u/.rit'', ''/home/u/.rit/repos/commons''],
         trace = [DirCreate ''/home/u/.rit'', DirExists ''/home/u/.rit/repos/commons'']\<rparr>)"
    using PreRunFunc_gate_open [OF c2 ne m3]
    by (simp add: broken_marker) (simp add: broken_tutorial_root_def initialized_world_def)
  have e2: "execute example_env broken_tutorial_root delete_commons_body ?c initialized_world =
      PostRunFunc example_env broken_tutorial_root ?c ?w2"
    using p2 bd by (simp add: execute_def)
  have m4: "\<not> Exists (dir broken_tutorial_root) (initMarker broken_tutorial_root) (fs ?w2)"
    by (simp add: broken_marker) (simp add: broken_tutorial_root_def mem_dir_def)
  have f2: "Find (rt broken_tutorial_root) (fs ?w2) = Inl ''tutorial file unreadable''"
    by (simp add: broken_tutorial_root_def finder_broken_def)
  have r2: "PostRunFunc example_env broken_tutorial_root ?c ?w2 =
      (Return (Some ''tutorial file unreadable''),
        \<lparr>fs = [''/home/u/.rit''],
         trace = [DirCreate ''/home/u/.rit'', DirExists ''/home/u/.rit/repos/commons'', RunBody,
                  DirExists ''/home/u/.rit/repos/commons'', TutorialFind]\<rparr>)"
    using PostRunFunc_find_fails [OF m4 f2, of example_env ?c] nr
    by (simp add: verifyNewVersion_other broken_marker)
  from a b e1 r1 e2 r2 show ?thesis by simp
qed

section \<open>The bare root command\<close>

text \<open>
  C9 as stated fails for the invocation as a whole: the pre-hook of the bare root command
  skips the initialization check, but its post-hook performs it, as for every command
  path, and with the tool not initialized goes on to the tutorial.
\<close>

theorem root_invocation_checks_in_post_hook_counterexample:
  "CommandPath \<lparr>CommandPath = ''rit''\<rparr> = ''rit''
   \<and> ''rit'' \<in> set whitelist
   \<and> PostRunFunc example_env example_root \<lparr>CommandPath = ''rit''\<rparr>
       \<lparr>fs = [''/home/u/.rit''], trace = []\<rparr> =
       (Return None,
        \<lparr>fs = [''/home/u/.rit''],
         trace = [HttpGet ''https://commons-repo.ritchiecli.io/stable.txt'' 1,
                  Warning ''Please upgrade rit to 2.1.0'',
                  DirExists ''/home/u/.rit/repos/commons'', TutorialFind,
                  Info ([CHR 0x0A] @ ''[TUTORIAL]''), Info ''To initialize the ritchie:'',
                  Println ('' '' @ [CHR 0xE2, CHR 0x88, CHR 0x99] @ '' Run '' @ [CHR 0x22]
                             @ ''rit init'' @ [CHR 0x22, CHR 0x0A])]\<rparr>)
   \<and> execute example_env example_root noop_body \<lparr>CommandPath = ''rit''\<rparr> fresh_world =
       (Return None,
        \<lparr>fs = [''/home/u/.rit''],
         trace = [DirCreate ''/home/u/.rit'', RunBody,
                  HttpGet ''https://commons-repo.ritchiecli.io/stable.txt'' 1,
                  Warning ''Please upgrade rit to 2.1.0'',
                  DirExists ''/home/u/.rit/repos/commons'', TutorialFind,
                  Info ([CHR 0x0A] @ ''[TUTORIAL]''), Info ''To initialize the ritchie:'',
                  Println ('' '' @ [CHR 0xE2, CHR 0x88, CHR 0x99] @ '' Run '' @ [CHR 0x22]
                             @ ''rit init'' @ [CHR 0x22, CHR 0x0A])]\<rparr>)"
proof -
  let ?c = "\<lparr>CommandPath = ''rit''\<rparr>"
  have a: "CommandPath ?c = ''rit''" by simp
  have b: "''rit'' \<in> set whitelist" by (simp add: whitelist_eq)
  from b have ex: "exempt ?c" by (simp add: exempt_iff)
  have p: "PreRunFunc example_root ?c fresh_world =
      (Return None, \<lparr>fs = [''/home/u/.rit''], trace = [DirCreate ''/home/u/.rit'']\<rparr>)"
    using PreRunFunc_exempt [OF example_create ex]
    by (simp add: example_root_def fresh_world_def)
  have bd: "noop_body [''/home/u/.rit''] = (Return None, [''/home/u/.rit''])"
    by (simp add: noop_body_def)
  have post: "PostRunFunc example_env example_root ?c \<lparr>fs = [''/home/u/.rit''], trace = t\<rparr> =
      (Return None,
        \<lparr>fs = [''/home/u/.rit''],
         trace = t @ [HttpGet ''https://commons-repo.ritchiecli.io/stable.txt'' 1,
                  Warning ''Please upgrade rit to 2.1.0'',
                  DirExists ''/home/u/.rit/repos/commons'', TutorialFind,
                  Info ([CHR 0x0A] @ ''[TUTORIAL]''), Info ''To initialize the ritchie:'',
                  Println ('' '' @ [CHR 0xE2, CHR 0x88, CHR 0x99] @ '' Run '' @ [CHR 0x22]
                             @ ''rit init'' @ [CHR 0x22, CHR 0x0A])]\<rparr>)" for t
  proof -
    let ?w = "\<lparr>fs = [''/home/u/.rit''], trace = t\<rparr>"
    have m: "\<not> Exists (dir example_root) (initMarker example_root) (fs ?w)"
      by (simp add: initMarker_example) (simp add: example_root_def mem_dir_def)
    have f: "Find (rt example_root) (fs ?w) = Inr \<lparr>Current = ''on''\<rparr>"
      by (simp add: example_root_def finder_on_def)
    have v: "verifyNewVersion example_env ?c ?w =
        \<lparr>fs = [''/home/u/.rit''],
         trace = t @ [HttpGet ''https://commons-repo.ritchiecli.io/stable.txt'' 1,
                      Warning ''Please upgrade rit to 2.1.0'']\<rparr>"
      using verifyNewVersion_root [OF a, of example_env ?w] by (simp add: example_env_def)
    from PostRunFunc_find_ok [OF m f, of example_env ?c] show ?thesis
      unfolding v
      by (simp add: initMarker_example tutorialRit_def tutorialStatusOn_def fmt_Println_def
          prompt_Info_def emit_def)
  qed
  have e: "execute example_env example_root noop_body ?c fresh_world =
      PostRunFunc example_env example_root ?c
        \<lparr>fs = [''/home/u/.rit''], trace = [DirCreate ''/home/u/.rit'', RunBody]\<rparr>"
    using p bd by (simp add: execute_def)
  from a b post [of "[]"] e post [of "[DirCreate ''/home/u/.rit'', RunBody]"] show ?thesis by simp
qed

end
